theory Spec2Isabelle
  imports Main "HOL-Library.Word" "HOL-Library.Signed_Division" "HOL-Library.Log_Nat"
begin

section \<open>Machine numbers of the Go program\<close>

text \<open>
  The repository's build script compiles the client with Go 1.7 and \<^verbatim>\<open>go build -race\<close>, which
  that release has for 64-bit x86 only, so \<^verbatim>\<open>int\<close> and \<^verbatim>\<open>int64\<close> are both 64-bit
  two's-complement numbers: \<open>+\<close> and \<open>*\<close> wrap around, \<open>/\<close> truncates towards zero and
  panics on a zero divisor.
\<close>

type_synonym int64 = "64 word"

definition int64_quo :: "int64 \<Rightarrow> int64 \<Rightarrow> int64 option" where
  \<comment> \<open>Go's \<^verbatim>\<open>x / y\<close> on \<^verbatim>\<open>int64\<close>; \<open>None\<close> is the run-time panic "integer divide by zero".\<close>
  "int64_quo x y = (if y = 0 then None else Some (word_of_int (sint x sdiv sint y)))"

subsection \<open>IEEE 754 binary64\<close>

text \<open>
  A \<^verbatim>\<open>float64\<close> is a NaN, a signed infinity, or a sign (\<open>True\<close> is negative) with a
  non-negative magnitude; the magnitude \<open>0\<close> with either sign gives the two zeros.
  Arithmetic computes the exact rational result and rounds it to the nearest value with a
  53-bit significand, ties to even, with gradual underflow below \<open>2\<^sup>-\<^sup>1\<^sup>0\<^sup>2\<^sup>2\<close> and overflow to
  infinity from \<open>2\<^sup>1\<^sup>0\<^sup>2\<^sup>4\<close> on.
\<close>

datatype float64 = NaN | Inf bool | Finite bool rat

definition pow2 :: "int \<Rightarrow> rat" where
  "pow2 e = (if 0 \<le> e then 2 ^ nat e else 1 / 2 ^ nat (- e))"

definition ilog2 :: "rat \<Rightarrow> int" where
  \<comment> \<open>For \<open>0 < x\<close>: the exponent \<open>e\<close> with \<open>2\<^sup>e \<le> x < 2\<^sup>e\<^sup>+\<^sup>1\<close>, from the bit lengths of
      numerator and denominator.\<close>
  "ilog2 x = (case quotient_of x of (p, q) \<Rightarrow>
     let e0 = bitlen p - bitlen q
     in if pow2 e0 \<le> x then e0 else e0 - 1)"

definition round_half_even :: "rat \<Rightarrow> int" where
  "round_half_even q =
     (let f = \<lfloor>q\<rfloor>; d = q - of_int f
      in if d < 1 / 2 then f
         else if 1 / 2 < d then f + 1
         else if even f then f else f + 1)"

definition f64_round :: "bool \<Rightarrow> rat \<Rightarrow> float64" where
  \<comment> \<open>Rounds the exact magnitude \<open>x \<ge> 0\<close> of a result with sign \<open>s\<close>.\<close>
  "f64_round s x =
     (if x = 0 then Finite s 0
      else let e = max (ilog2 x) (- 1022);
               ulp = pow2 (e - 52);
               n = round_half_even (x / ulp)
           in if 1024 \<le> e \<or> (e = 1023 \<and> 2 ^ 53 \<le> n) then Inf s
              else Finite s (of_int n * ulp))"

definition f64_of_rat :: "rat \<Rightarrow> float64" where
  \<comment> \<open>The \<^verbatim>\<open>float64\<close> nearest to a decimal literal or to a parsed decimal number.\<close>
  "f64_of_rat x = f64_round (x < 0) \<bar>x\<bar>"

definition f64_of_int :: "int \<Rightarrow> float64" where
  \<comment> \<open>The conversion \<^verbatim>\<open>float64(n)\<close> of an integer.\<close>
  "f64_of_int n = f64_of_rat (of_int n)"

fun f64_mul :: "float64 \<Rightarrow> float64 \<Rightarrow> float64" where
  "f64_mul NaN _ = NaN"
| "f64_mul _ NaN = NaN"
| "f64_mul (Inf s) (Inf t) = Inf (s \<noteq> t)"
| "f64_mul (Inf s) (Finite t y) = (if y = 0 then NaN else Inf (s \<noteq> t))"
| "f64_mul (Finite s x) (Inf t) = (if x = 0 then NaN else Inf (s \<noteq> t))"
| "f64_mul (Finite s x) (Finite t y) = f64_round (s \<noteq> t) (x * y)"

fun f64_div :: "float64 \<Rightarrow> float64 \<Rightarrow> float64" where
  "f64_div NaN _ = NaN"
| "f64_div _ NaN = NaN"
| "f64_div (Inf s) (Inf t) = NaN"
| "f64_div (Inf s) (Finite t y) = Inf (s \<noteq> t)"
| "f64_div (Finite s x) (Inf t) = Finite (s \<noteq> t) 0"
| "f64_div (Finite s x) (Finite t y) =
     (if y = 0 then (if x = 0 then NaN else Inf (s \<noteq> t))
      else f64_round (s \<noteq> t) (x / y))"

definition int64_indefinite :: int64 where
  "int64_indefinite = word_of_int (- (2 ^ 63))"

fun f64_to_int64 :: "float64 \<Rightarrow> int64" where
  \<comment> \<open>The conversion \<^verbatim>\<open>int64(f)\<close>: the fraction is discarded (truncation towards zero). For
      a NaN, an infinity or a value outside the range of \<^verbatim>\<open>int64\<close> Go leaves the result to
      the implementation; on 64-bit x86 it is the "integer indefinite" value \<open>-2\<^sup>6\<^sup>3\<close>.\<close>
  "f64_to_int64 NaN = int64_indefinite"
| "f64_to_int64 (Inf s) = int64_indefinite"
| "f64_to_int64 (Finite s x) =
     (let t = (if s then - \<lfloor>x\<rfloor> else \<lfloor>x\<rfloor>)
      in if - (2 ^ 63) \<le> t \<and> t < 2 ^ 63 then word_of_int t else int64_indefinite)"

section \<open>Data model\<close>

text \<open>
  A pod as the client reads it: \<^verbatim>\<open>pod.Name\<close>, \<^verbatim>\<open>pod.Status.Phase\<close> and, for each container
  of \<^verbatim>\<open>pod.Spec.Containers\<close>, the lookup \<^verbatim>\<open>container.Resources.Requests[v1.ResourceCPU]\<close>:
  \<open>None\<close> when the key is absent, otherwise the \<^verbatim>\<open>MilliValue()\<close> of the quantity.
  \<^verbatim>\<open>v1.PodPhase\<close> is a string type with five named values; the client compares a phase with
  \<^verbatim>\<open>v1.PodRunning\<close> and with \<^verbatim>\<open>v1.PodPending\<close> only.
\<close>

type_synonym PodPhase = string

definition PodPending :: PodPhase where
  "PodPending = ''Pending''"

definition PodRunning :: PodPhase where
  "PodRunning = ''Running''"

definition PodSucceeded :: PodPhase where
  "PodSucceeded = ''Succeeded''"

definition PodFailed :: PodPhase where
  "PodFailed = ''Failed''"

definition PodUnknown :: PodPhase where
  "PodUnknown = ''Unknown''"

record Container =
  cpu_request :: "int64 option"

record Pod =
  pod_name :: string
  pod_phase :: PodPhase
  pod_containers :: "Container list"

text \<open>
  \<^verbatim>\<open>time.Time\<close>: the zero value \<^verbatim>\<open>time.Time{}\<close>, or the result of \<^verbatim>\<open>Timestamp.Time()\<close> on a
  sample's timestamp (milliseconds since the epoch).
\<close>

datatype gotime = ZeroTime | TimeOfMillis int64

record Sample =
  sample_value :: float64
  sample_timestamp :: int64

text \<open>
  \<^verbatim>\<open>model.Value\<close>, the interface type of a query result, has four implementations. The
  client reads the contents of a vector only.
\<close>

datatype model_value =
    ValScalar float64 int64
  | ValVector "Sample list"
  | ValMatrix "Sample list list"
  | ValString string int64

text \<open>
  The errors the client creates, one constructor for each \<^verbatim>\<open>fmt.Errorf\<close> of the source,
  with the values formatted into the message as arguments.
\<close>

datatype error =
    FailedToGetPodList string
      \<comment> \<open>\<^verbatim>\<open>failed to get pod list: %v\<close>\<close>
  | NoRunningPods
      \<comment> \<open>\<^verbatim>\<open>no running pods\<close>\<close>
  | NoCpuRequest
      \<comment> \<open>\<^verbatim>\<open>some pods do not have request for cpu\<close>\<close>
  | FailedToGetMetrics string string string
      \<comment> \<open>\<^verbatim>\<open>failed to get metrics %v for pods: %v due to: %v\<close>\<close>
  | CpuMetricsMissing string
      \<comment> \<open>\<^verbatim>\<open>cpu metrics missing for pods %s\<close>\<close>
  | MetricMissing string string
      \<comment> \<open>\<^verbatim>\<open>metric %v missing for pods: %s\<close>\<close>
  | FailedToGetCpuConsumptionAndRequest error
      \<comment> \<open>\<^verbatim>\<open>failed to get CPU consumption and request: %v\<close>\<close>

text \<open>The error kinds of the specification.\<close>

datatype error_kind =
    PodListError | NoEligiblePods | MissingResourceRequest | QueryError
  | UnexpectedResultShape | NoMatchingMetricSamples

fun kind_of :: "error \<Rightarrow> error_kind" where
  "kind_of (FailedToGetPodList _) = PodListError"
| "kind_of NoRunningPods = NoEligiblePods"
| "kind_of NoCpuRequest = MissingResourceRequest"
| "kind_of (FailedToGetMetrics _ _ _) = QueryError"
| "kind_of (CpuMetricsMissing _) = NoMatchingMetricSamples"
| "kind_of (MetricMissing _ _) = NoMatchingMetricSamples"
| "kind_of (FailedToGetCpuConsumptionAndRequest e) = kind_of e"

text \<open>
  A call either returns its tuple of results or panics; next to that outcome the model
  records the queries the call sent to the backend, in order.
\<close>

datatype panic = InterfaceConversion | IntegerDivideByZero

datatype 'a outcome = Panic panic | Return 'a

type_synonym 'a run = "string list \<times> 'a outcome"

text \<open>
  The two collaborators of \<^verbatim>\<open>PrometheusMetricsClient\<close>: \<open>client\<close> answers
  \<^verbatim>\<open>Core().Pods(namespace).List(...)\<close> for a namespace and a selector, \<open>queryAPI\<close> answers
  \<^verbatim>\<open>Query(ctx, query, time.Now())\<close> for a query string; \<open>Inl\<close> carries the message of a
  non-nil \<^verbatim>\<open>err\<close>.
\<close>

record 'sel PrometheusMetricsClient =
  client :: "string \<Rightarrow> 'sel \<Rightarrow> string + Pod list"
  queryAPI :: "string \<Rightarrow> string + model_value"

definition DefaultCPUUtilizationMetric :: string where
  "DefaultCPUUtilizationMetric = ''container_cpu_usage_seconds_total''"

section \<open>The client\<close>

text \<open>
  The functions of \<^verbatim>\<open>PrometheusMetricsClient\<close>, statement by statement. The calls of
  \<^verbatim>\<open>glog.V(4).Infof\<close> only write to the log and are left out.
\<close>

subsection \<open>Building the pod-name pattern\<close>

text \<open>
  Both query functions start from \<^verbatim>\<open>"("\<close>, append \<^verbatim>\<open>podName + "|"\<close> for each name, call
  \<^verbatim>\<open>strings.TrimSuffix(podListReg, "|")\<close> without using its result, so that \<^verbatim>\<open>podListReg\<close>
  is unchanged by that line, and append \<^verbatim>\<open>").*"\<close>.
\<close>

definition TrimSuffix :: "string \<Rightarrow> string \<Rightarrow> string" where
  "TrimSuffix s suffix =
     (if length suffix \<le> length s \<and> drop (length s - length suffix) s = suffix
      then take (length s - length suffix) s else s)"

definition podListReg_of :: "string list \<Rightarrow> string" where
  "podListReg_of podNames =
     (let podListReg = foldl (\<lambda>reg podName. reg @ podName @ ''|'') ''('' podNames;
          discarded = TrimSuffix podListReg ''|''
      in podListReg @ '').*'')"

subsection \<open>Summing the CPU requests of the running pods\<close>

text \<open>
  \<^verbatim>\<open>podNames\<close> in the CPU path is a \<^verbatim>\<open>map[string]struct{}\<close>, used as a set of names. The
  model keeps its keys as a duplicate-free list in the order of first insertion, and
  \<^verbatim>\<open>len(podNames)\<close> is the length of that list. Go leaves open the order in which \<^verbatim>\<open>range\<close>
  visits the keys of a map, so the function that ranges over the map takes the order as its
  argument \<open>range_order\<close>, applied to the key list.
\<close>

definition map_insert :: "string \<Rightarrow> string list \<Rightarrow> string list" where
  "map_insert k ks = (if k \<in> set ks then ks else ks @ [k])"

record cpu_scan =
  podNames :: "string list"
  requestSum :: int64
  missing :: bool

definition scan_container :: "cpu_scan \<Rightarrow> Container \<Rightarrow> cpu_scan" where
  "scan_container st container =
     (case cpu_request container of
        Some containerRequest \<Rightarrow> st\<lparr>requestSum := requestSum st + containerRequest\<rparr>
      | None \<Rightarrow> st\<lparr>missing := True\<rparr>)"

definition scan_pod :: "cpu_scan \<Rightarrow> Pod \<Rightarrow> cpu_scan" where
  "scan_pod st pod =
     (if pod_phase pod \<noteq> PodRunning then st
      else foldl scan_container
             (st\<lparr>podNames := map_insert (pod_name pod) (podNames st)\<rparr>)
             (pod_containers pod))"

definition scan_pods :: "Pod list \<Rightarrow> cpu_scan" where
  "scan_pods items =
     foldl scan_pod \<lparr>podNames = [], requestSum = 0, missing = False\<rparr> items"

subsection \<open>The CPU path\<close>

definition quote :: string where
  "quote = [CHR 0x27]"

definition cpu_query :: "string \<Rightarrow> string \<Rightarrow> string" where
  "cpu_query namespace podListReg =
     ''sum(rate({__name__='' @ quote @ DefaultCPUUtilizationMetric @ quote @
     '',namespace='' @ quote @ namespace @ quote @
     '',pod_name=~'' @ quote @ podListReg @ quote @ ''}[30m]))''"

definition getCpuUtilizationForPods ::
  "'sel PrometheusMetricsClient \<Rightarrow> (string list \<Rightarrow> string list) \<Rightarrow> string \<Rightarrow> 'sel \<Rightarrow>
   string list \<Rightarrow> (int64 \<times> gotime \<times> error option) run" where
  "getCpuUtilizationForPods h range_order namespace selector names =
     (let podListReg = podListReg_of (range_order names);
          query = cpu_query namespace podListReg
      in case queryAPI h query of
           Inl err \<Rightarrow>
             ([query], Return (0, ZeroTime,
                Some (FailedToGetMetrics DefaultCPUUtilizationMetric podListReg err)))
         | Inr result \<Rightarrow>
             (case result of
                ValVector metrics \<Rightarrow>
                  (case metrics of
                     [] \<Rightarrow> ([query], Return (0, ZeroTime, Some (CpuMetricsMissing podListReg)))
                   | m # _ \<Rightarrow>
                       (let sum = f64_mul (sample_value m) (Finite False 1000)
                        in ([query],
                            Return (f64_to_int64 (f64_div sum (f64_of_int (int (length names)))),
                                    TimeOfMillis (sample_timestamp m), None))))
              | _ \<Rightarrow> ([query], Panic InterfaceConversion)))"

definition GetCpuConsumptionAndRequestInMillis ::
  "'sel PrometheusMetricsClient \<Rightarrow> (string list \<Rightarrow> string list) \<Rightarrow> string \<Rightarrow> 'sel \<Rightarrow>
   (int64 \<times> int64 \<times> gotime \<times> error option) run" where
  "GetCpuConsumptionAndRequestInMillis h range_order namespace selector =
     (case client h namespace selector of
        Inl err \<Rightarrow> ([], Return (0, 0, ZeroTime, Some (FailedToGetPodList err)))
      | Inr items \<Rightarrow>
          (let st = scan_pods items
           in if length (podNames st) = 0 \<and> length items > 0
              then ([], Return (0, 0, ZeroTime, Some NoRunningPods))
              else if missing st \<or> requestSum st = 0
              then ([], Return (0, 0, ZeroTime, Some NoCpuRequest))
              else case int64_quo (requestSum st) (of_nat (length (podNames st))) of
                     None \<Rightarrow> ([], Panic IntegerDivideByZero)
                   | Some requestAvg \<Rightarrow>
                       (case getCpuUtilizationForPods h range_order namespace selector
                               (podNames st) of
                          (qs, Panic p) \<Rightarrow> (qs, Panic p)
                        | (qs, Return (consumption, timestamp, Some err)) \<Rightarrow>
                            (qs, Return (0, 0, ZeroTime, Some err))
                        | (qs, Return (consumption, timestamp, None)) \<Rightarrow>
                            (qs, Return (consumption, requestAvg, timestamp, None)))))"

definition GetCPUUtilization ::
  "'sel PrometheusMetricsClient \<Rightarrow> (string list \<Rightarrow> string list) \<Rightarrow> string \<Rightarrow> 'sel \<Rightarrow>
   (int64 option \<times> gotime \<times> error option) run" where
  "GetCPUUtilization h range_order namespace selector =
     (case GetCpuConsumptionAndRequestInMillis h range_order namespace selector of
        (qs, Panic p) \<Rightarrow> (qs, Panic p)
      | (qs, Return (avgConsumption, avgRequest, timestamp, Some err)) \<Rightarrow>
          (qs, Return (None, ZeroTime, Some (FailedToGetCpuConsumptionAndRequest err)))
      | (qs, Return (avgConsumption, avgRequest, timestamp, None)) \<Rightarrow>
          (case int64_quo (avgConsumption * 100) avgRequest of
             None \<Rightarrow> (qs, Panic IntegerDivideByZero)
           | Some utilization \<Rightarrow> (qs, Return (Some utilization, timestamp, None))))"

subsection \<open>The custom-metric path\<close>

text \<open>Here \<^verbatim>\<open>podNames\<close> is a slice: every pod that is not pending appends its name.\<close>

definition append_unless_pending :: "string list \<Rightarrow> Pod \<Rightarrow> string list" where
  "append_unless_pending names pod =
     (if pod_phase pod = PodPending then names else names @ [pod_name pod])"

definition custom_podNames :: "Pod list \<Rightarrow> string list" where
  "custom_podNames items = foldl append_unless_pending [] items"

definition custom_query :: "string \<Rightarrow> string \<Rightarrow> string \<Rightarrow> string" where
  "custom_query customMetricName namespace podListReg =
     ''sum({__name__='' @ quote @ customMetricName @ quote @
     '',kubernetes_namespace='' @ quote @ namespace @ quote @
     '',kubernetes_pod_name=~'' @ quote @ podListReg @ quote @ ''})''"

definition getCustomMetricForPods ::
  "'sel PrometheusMetricsClient \<Rightarrow> string \<Rightarrow> string \<Rightarrow> string list \<Rightarrow>
   (float64 \<times> gotime \<times> error option) run" where
  "getCustomMetricForPods h customMetricName namespace names =
     (let podListReg = podListReg_of names;
          query = custom_query customMetricName namespace podListReg
      in case queryAPI h query of
           Inl err \<Rightarrow>
             ([query], Return (Finite False 0, ZeroTime,
                Some (FailedToGetMetrics customMetricName podListReg err)))
         | Inr result \<Rightarrow>
             (case result of
                ValVector metrics \<Rightarrow>
                  (case metrics of
                     [] \<Rightarrow> ([query], Return (Finite False 0, ZeroTime,
                             Some (MetricMissing customMetricName podListReg)))
                   | m # _ \<Rightarrow>
                       ([query],
                        Return (f64_div (sample_value m) (f64_of_int (int (length names))),
                                TimeOfMillis (sample_timestamp m), None)))
              | _ \<Rightarrow> ([query], Panic InterfaceConversion)))"

definition GetCustomMetric ::
  "'sel PrometheusMetricsClient \<Rightarrow> string \<Rightarrow> string \<Rightarrow> 'sel \<Rightarrow>
   (float64 option \<times> gotime \<times> error option) run" where
  "GetCustomMetric h customMetricName namespace selector =
     (case client h namespace selector of
        Inl err \<Rightarrow> ([], Return (None, ZeroTime, Some (FailedToGetPodList err)))
      | Inr items \<Rightarrow>
          (let names = custom_podNames items
           in if length names = 0 \<and> length items > 0
              then ([], Return (None, ZeroTime, Some NoRunningPods))
              else case getCustomMetricForPods h customMetricName namespace names of
                     (qs, Panic p) \<Rightarrow> (qs, Panic p)
                   | (qs, Return (v, timestamp, Some err)) \<Rightarrow>
                       (qs, Return (None, ZeroTime, Some err))
                   | (qs, Return (v, timestamp, None)) \<Rightarrow>
                       (qs, Return (Some v, timestamp, None))))"

section \<open>Notions of the specification\<close>

text \<open>
  The eligible pods of the two paths, the CPU requests that are present on the containers of
  a pod list, and whether some container of the list has none; \<open>insert_all\<close> is the key list
  of a map after the insertion of a list of names.
\<close>

definition running :: "Pod list \<Rightarrow> Pod list" where
  "running items = filter (\<lambda>pod. pod_phase pod = PodRunning) items"

definition not_pending :: "Pod list \<Rightarrow> Pod list" where
  "not_pending items = filter (\<lambda>pod. pod_phase pod \<noteq> PodPending) items"

definition cpu_requests :: "Pod list \<Rightarrow> int64 list" where
  "cpu_requests items =
     concat (map (\<lambda>pod. List.map_filter cpu_request (pod_containers pod)) items)"

definition lacks_request :: "Pod list \<Rightarrow> bool" where
  "lacks_request items =
     (\<exists>pod \<in> set items. \<exists>c \<in> set (pod_containers pod). cpu_request c = None)"

definition insert_all :: "string list \<Rightarrow> string list \<Rightarrow> string list" where
  "insert_all ks names = foldl (\<lambda>ks k. map_insert k ks) ks names"

section \<open>Scenarios\<close>

text \<open>
  A client whose two collaborators give the same answer to every call, and the pods of the
  scenarios below.
\<close>

definition fixed_client ::
  "string + Pod list \<Rightarrow> string + model_value \<Rightarrow> unit PrometheusMetricsClient" where
  "fixed_client listing answer =
     \<lparr>client = (\<lambda>namespace selector. listing), queryAPI = (\<lambda>query. answer)\<rparr>"

definition a_pod :: "string \<Rightarrow> PodPhase \<Rightarrow> int64 option list \<Rightarrow> Pod" where
  "a_pod n ph requests =
     \<lparr>pod_name = n, pod_phase = ph,
      pod_containers = map (\<lambda>r. \<lparr>cpu_request = r\<rparr>) requests\<rparr>"

definition a_sample :: "rat \<Rightarrow> int64 \<Rightarrow> Sample" where
  "a_sample v t = \<lparr>sample_value = f64_of_rat v, sample_timestamp = t\<rparr>"

section \<open>Properties of the binary64 model\<close>

text \<open>
  The exponent that the rounding uses is the binary exponent of its argument, and a finite
  result of the rounding is a multiple \<open>n * 2\<^sup>e\<^sup>-\<^sup>5\<^sup>2\<close> with \<open>n \<le> 2\<^sup>5\<^sup>3\<close> and an exponent in the range
  of binary64, at most half a unit in the last place away from the exact value.
\<close>

lemma pow2_powi: "pow2 e = 2 powi e"
  by (simp add: pow2_def power_int_def power_inverse inverse_eq_divide power_one_over)

lemma pow2_pos: "0 < pow2 e"
  by (simp add: pow2_powi zero_less_power_int)

lemma bitlen_rat_bounds:
  assumes "0 < p"
  shows "pow2 (bitlen p - 1) \<le> rat_of_int p" and "rat_of_int p < pow2 (bitlen p)"
proof -
  have pos: "1 \<le> bitlen p"
    using assms by (simp add: bitlen_alt_def)
  from bitlen_bounds [OF assms]
  have lo: "2 ^ nat (bitlen p - 1) \<le> p" and hi: "p < 2 ^ nat (bitlen p)"
    by simp_all
  have "rat_of_int (2 ^ nat (bitlen p - 1)) \<le> rat_of_int p"
    using lo by (simp only: of_int_le_iff)
  then show "pow2 (bitlen p - 1) \<le> rat_of_int p"
    using pos by (simp add: pow2_def)
  have "rat_of_int p < rat_of_int (2 ^ nat (bitlen p))"
    using hi by (simp only: of_int_less_iff)
  then show "rat_of_int p < pow2 (bitlen p)"
    using pos by (simp add: pow2_def)
qed

lemma ilog2_bounds:
  assumes "0 < x"
  shows "pow2 (ilog2 x) \<le> x \<and> x < pow2 (ilog2 x + 1)"
proof -
  obtain p q where pq: "quotient_of x = (p, q)"
    by (cases "quotient_of x")
  then have q: "0 < q" and x: "x = rat_of_int p / rat_of_int q"
    by (simp_all add: quotient_of_denom_pos quotient_of_div)
  have p: "0 < p"
    using assms q x by (simp add: zero_less_divide_iff)
  let ?e = "bitlen p - bitlen q"
  note bp = bitlen_rat_bounds [OF p] and bq = bitlen_rat_bounds [OF q]
  have qpos: "0 < rat_of_int q"
    using q by simp
  have "x < pow2 (bitlen p) / pow2 (bitlen q - 1)"
  proof -
    have "x < pow2 (bitlen p) / rat_of_int q"
      unfolding x using bp(2) qpos by (simp add: divide_strict_right_mono)
    also have "\<dots> \<le> pow2 (bitlen p) / pow2 (bitlen q - 1)"
      using bq(1) qpos pow2_pos [of "bitlen q - 1"] pow2_pos [of "bitlen p"]
      by (intro divide_left_mono mult_pos_pos) simp_all
    finally show ?thesis .
  qed
  also have "\<dots> = pow2 (?e + 1)"
    by (simp add: pow2_powi power_int_diff [symmetric] algebra_simps)
  finally have upper: "x < pow2 (?e + 1)" .
  have "pow2 (bitlen p - 1) / pow2 (bitlen q) \<le> pow2 (bitlen p - 1) / rat_of_int q"
    using bq(2) qpos pow2_pos [of "bitlen q"] pow2_pos [of "bitlen p - 1"]
    by (intro divide_left_mono mult_pos_pos) simp_all
  also have "\<dots> \<le> x"
    unfolding x using bp(1) qpos by (simp add: divide_right_mono)
  finally have "pow2 (bitlen p - 1) / pow2 (bitlen q) \<le> x" .
  moreover have "pow2 (bitlen p - 1) / pow2 (bitlen q) = pow2 (?e - 1)"
    by (simp add: pow2_powi power_int_diff [symmetric] algebra_simps)
  ultimately have lower: "pow2 (?e - 1) \<le> x"
    by simp
  show ?thesis
  proof (cases "pow2 ?e \<le> x")
    case True
    then have "ilog2 x = ?e"
      by (simp add: ilog2_def pq)
    with True upper show ?thesis
      by simp
  next
    case False
    then have "ilog2 x = ?e - 1"
      by (simp add: ilog2_def pq)
    with False lower show ?thesis
      by simp
  qed
qed

lemma round_half_even_floor:
  "\<lfloor>q\<rfloor> \<le> round_half_even q \<and> round_half_even q \<le> \<lfloor>q\<rfloor> + 1"
  by (simp add: round_half_even_def Let_def)

lemma round_half_even_error: "\<bar>rat_of_int (round_half_even q) - q\<bar> \<le> 1 / 2"
proof -
  have "rat_of_int \<lfloor>q\<rfloor> \<le> q" and "q < rat_of_int \<lfloor>q\<rfloor> + 1"
    by linarith+
  then show ?thesis
    by (auto simp: round_half_even_def Let_def abs_le_iff)
qed

lemma f64_round_finite:
  assumes "0 < x" and "f64_round s x = Finite s' r"
  shows "\<exists>n e. r = rat_of_int n * pow2 (e - 52) \<and> 0 \<le> n \<and> n \<le> 2 ^ 53 \<and>
           - 1022 \<le> e \<and> e \<le> 1023 \<and> \<bar>r - x\<bar> \<le> pow2 (e - 52) / 2 \<and> s' = s"
proof -
  define e where "e = max (ilog2 x) (- 1022)"
  define ulp where "ulp = pow2 (e - 52)"
  define n where "n = round_half_even (x / ulp)"
  have ulp: "0 < ulp"
    by (simp add: ulp_def pow2_pos)
  from assms have fin: "\<not> (1024 \<le> e \<or> e = 1023 \<and> 2 ^ 53 \<le> n)"
    and r: "r = rat_of_int n * ulp" and s: "s' = s"
    by (simp_all add: f64_round_def Let_def e_def [symmetric] ulp_def [symmetric]
          n_def [symmetric] split: if_splits)
  have "0 \<le> x / ulp"
    using assms(1) ulp by simp
  then have "0 \<le> \<lfloor>x / ulp\<rfloor>"
    by simp
  then have n0: "0 \<le> n"
    using round_half_even_floor [of "x / ulp"] unfolding n_def by linarith
  have "x < pow2 (ilog2 x + 1)"
    using ilog2_bounds [OF assms(1)] by simp
  also have "\<dots> \<le> pow2 (e + 1)"
    by (simp add: pow2_powi e_def power_int_increasing)
  also have "\<dots> = 2 ^ 53 * ulp"
  proof -
    have "(2::rat) powi (53 + (e - 52)) = 2 powi 53 * 2 powi (e - 52)"
      by (rule power_int_add) simp
    moreover have "53 + (e - 52) = e + 1"
      by simp
    moreover have "(2::rat) powi 53 = 2 ^ 53"
      by (simp add: pow2_powi [symmetric] pow2_def)
    ultimately show ?thesis
      by (simp only: ulp_def pow2_powi)
  qed
  finally have "x / ulp < 2 ^ 53"
    using ulp by (simp add: pos_divide_less_eq)
  then have "\<lfloor>x / ulp\<rfloor> < 2 ^ 53"
    by (simp add: floor_less_iff)
  then have n1: "n \<le> 2 ^ 53"
    using round_half_even_floor [of "x / ulp"] unfolding n_def by linarith
  have "r - x = ulp * (rat_of_int n - x / ulp)"
    using ulp by (simp add: r algebra_simps)
  then have "\<bar>r - x\<bar> = ulp * \<bar>rat_of_int n - x / ulp\<bar>"
    using ulp by (simp only: abs_mult abs_of_pos)
  also have "\<dots> \<le> ulp * (1 / 2)"
    using ulp round_half_even_error [of "x / ulp"]
    by (intro mult_left_mono) (simp_all add: n_def)
  finally have err: "\<bar>r - x\<bar> \<le> ulp / 2"
    by simp
  have "- 1022 \<le> e"
    by (simp add: e_def)
  moreover have "e \<le> 1023"
    using fin by linarith
  ultimately have "- 1022 \<le> e" "e \<le> 1023" .
  with r n0 n1 err s show ?thesis
    unfolding ulp_def by blast
qed

lemma f64_examples:
  "f64_of_rat (2 / 5) = Finite False (3602879701896397 / 9007199254740992)"
  "f64_mul (f64_of_rat (1 / 10)) (Finite False 3) =
     Finite False (1351079888211149 / 4503599627370496)"
  "f64_of_int (9007199254740993) = Finite False 9007199254740992"
  "f64_div (Finite False 1) (Finite True 0) = Inf True"
  "f64_to_int64 (f64_of_rat (- 7 / 2)) = - 3"
  by code_simp+

section \<open>Properties of the two loops\<close>

lemma PodPhase_distinct [simp]:
  "PodPending \<noteq> PodRunning" "PodRunning \<noteq> PodPending"
  "PodSucceeded \<noteq> PodRunning" "PodSucceeded \<noteq> PodPending"
  "PodFailed \<noteq> PodRunning" "PodFailed \<noteq> PodPending"
  "PodUnknown \<noteq> PodRunning" "PodUnknown \<noteq> PodPending"
  by (simp_all add: PodPending_def PodRunning_def PodSucceeded_def PodFailed_def PodUnknown_def)

lemma scan_container_podNames: "podNames (foldl scan_container st cs) = podNames st"
  by (induction cs arbitrary: st) (auto simp: scan_container_def split: option.splits)

lemma scan_container_requestSum:
  "requestSum (foldl scan_container st cs) =
     requestSum st + sum_list (List.map_filter cpu_request cs)"
  by (induction cs arbitrary: st)
     (auto simp: scan_container_def List.map_filter_simps split: option.splits)

lemma scan_container_missing:
  "missing (foldl scan_container st cs) \<longleftrightarrow>
     missing st \<or> (\<exists>c \<in> set cs. cpu_request c = None)"
  by (induction cs arbitrary: st) (auto simp: scan_container_def split: option.splits)

lemma scan_pod_podNames:
  "podNames (foldl scan_pod st items) =
     insert_all (podNames st) (map pod_name (running items))"
  by (induction items arbitrary: st)
     (auto simp: scan_pod_def running_def insert_all_def scan_container_podNames)

lemma scan_pod_requestSum:
  "requestSum (foldl scan_pod st items) =
     requestSum st + sum_list (cpu_requests (running items))"
  by (induction items arbitrary: st)
     (auto simp: scan_pod_def running_def cpu_requests_def scan_container_requestSum)

lemma scan_pod_missing:
  "missing (foldl scan_pod st items) \<longleftrightarrow> missing st \<or> lacks_request (running items)"
  by (induction items arbitrary: st)
     (auto simp: scan_pod_def running_def lacks_request_def scan_container_missing)

lemma set_insert_all: "set (insert_all ks names) = set ks \<union> set names"
  by (induction names arbitrary: ks) (auto simp: insert_all_def map_insert_def)

lemma distinct_insert_all: "distinct ks \<Longrightarrow> distinct (insert_all ks names)"
  by (induction names arbitrary: ks) (auto simp: insert_all_def map_insert_def)

lemma insert_all_distinct: "distinct (ks @ names) \<Longrightarrow> insert_all ks names = ks @ names"
  by (induction names arbitrary: ks) (auto simp: insert_all_def map_insert_def)

lemma insert_all_Nil_iff: "insert_all ks names = [] \<longleftrightarrow> ks = [] \<and> names = []"
proof -
  have "insert_all ks names = [] \<longleftrightarrow> set (insert_all ks names) = {}"
    by simp
  then show ?thesis
    by (simp add: set_insert_all)
qed

lemma scan_pods_podNames:
  "podNames (scan_pods items) = insert_all [] (map pod_name (running items))"
  by (simp add: scan_pods_def scan_pod_podNames)

lemma scan_pods_requestSum:
  "requestSum (scan_pods items) = sum_list (cpu_requests (running items))"
  by (simp add: scan_pods_def scan_pod_requestSum)

lemma scan_pods_missing: "missing (scan_pods items) = lacks_request (running items)"
  by (simp add: scan_pods_def scan_pod_missing)

lemma scan_pods_running: "scan_pods (running items) = scan_pods items"
  by (rule cpu_scan.equality)
     (simp_all add: scan_pods_podNames scan_pods_requestSum scan_pods_missing running_def)

lemma scan_pods_no_names: "podNames (scan_pods items) = [] \<longleftrightarrow> running items = []"
  by (simp add: scan_pods_podNames insert_all_Nil_iff)

lemma custom_podNames_foldl:
  "foldl append_unless_pending names items = names @ map pod_name (not_pending items)"
  by (induction items arbitrary: names)
     (auto simp: append_unless_pending_def not_pending_def)

lemma custom_podNames_eq: "custom_podNames items = map pod_name (not_pending items)"
  by (simp add: custom_podNames_def custom_podNames_foldl)

lemma podListReg_of_eq:
  "podListReg_of names = ''('' @ concat (map (\<lambda>n. n @ ''|'') names) @ '').*''"
proof -
  have "foldl (\<lambda>reg podName. reg @ podName @ ''|'') acc names =
          acc @ concat (map (\<lambda>n. n @ ''|'') names)" for acc
    by (induction names arbitrary: acc) auto
  then show ?thesis
    by (simp add: podListReg_of_def Let_def)
qed

lemma insert_all_Cons:
  "insert_all ks (k # names) = insert_all (map_insert k ks) names"
  by (simp add: insert_all_def)

lemma length_insert_all: "length (insert_all ks names) \<le> length ks + length names"
proof (induction names arbitrary: ks)
  case Nil
  show ?case
    by (simp add: insert_all_def)
next
  case (Cons k names)
  have "length (insert_all (map_insert k ks) names) \<le> length (map_insert k ks) + length names"
    by (rule Cons.IH)
  also have "length (map_insert k ks) \<le> Suc (length ks)"
    by (simp add: map_insert_def)
  finally show ?case
    by (simp add: insert_all_Cons)
qed

lemma length_scan_pods_podNames: "length (podNames (scan_pods items)) \<le> length items"
proof -
  have "length (podNames (scan_pods items)) \<le> length (running items)"
    using length_insert_all [of "[]" "map pod_name (running items)"]
    by (simp add: scan_pods_podNames)
  also have "\<dots> \<le> length items"
    by (simp add: running_def)
  finally show ?thesis .
qed

section \<open>Arithmetic of 64-bit integers without overflow\<close>

lemma int64_of_nat_eq_0_iff: "n < 2 ^ 63 \<Longrightarrow> (of_nat n :: int64) = 0 \<longleftrightarrow> n = 0"
proof
  assume small: "n < 2 ^ 63" and "(of_nat n :: int64) = 0"
  then have "2 ^ 64 dvd n"
    by (simp add: word_of_nat_eq_0_iff)
  with small show "n = 0"
    by (auto dest: dvd_imp_le)
qed simp

lemma sint_int64_of_int:
  "- (2 ^ 63) \<le> k \<Longrightarrow> k < 2 ^ 63 \<Longrightarrow> sint (word_of_int k :: int64) = k"
  by (simp add: sint_sbintrunc' signed_take_bit_int_eq_self)

lemma int64_of_sint: "word_of_int (sint w) = (w :: int64)"
  by simp

lemma sint_sum_list:
  fixes rs :: "int64 list"
  assumes "\<forall>r \<in> set rs. 0 \<le> sint r" and "sum_list (map sint rs) < 2 ^ 63"
  shows "sint (sum_list rs) = sum_list (map sint rs)"
  using assms
proof (induction rs)
  case Nil
  show ?case
    by simp
next
  case (Cons r rs)
  have rest: "0 \<le> sum_list (map sint rs)"
    using Cons.prems(1) by (auto intro!: sum_list_nonneg)
  have "sint (sum_list rs) = sum_list (map sint rs)"
    using Cons.prems rest by (intro Cons.IH) auto
  then have "sint (r + sum_list rs) =
      signed_take_bit 63 (sint r + sum_list (map sint rs))"
    by (simp add: sint_word_ariths)
  also have "\<dots> = sint r + sum_list (map sint rs)"
    using Cons.prems rest by (intro signed_take_bit_int_eq_self) auto
  finally show ?case
    by simp
qed

lemma int64_quo_nonneg:
  assumes "0 \<le> a" and "a < 2 ^ 63" and "0 < b" and "b < 2 ^ 63"
  shows "int64_quo (word_of_int a) (word_of_int b) = Some (word_of_int (a div b))"
proof -
  have sa: "sint (word_of_int a :: int64) = a" and sb: "sint (word_of_int b :: int64) = b"
    using assms by (simp_all add: sint_int64_of_int)
  have "(word_of_int b :: int64) \<noteq> 0"
    using sb assms(3) by (metis less_irrefl sint_0)
  moreover have "a sdiv b = a div b"
    using assms(1,3) by (simp add: signed_divide_int_def sgn_if)
  ultimately show ?thesis
    by (simp add: int64_quo_def sa sb)
qed

section \<open>The entry points, by the answers of the collaborators\<close>

text \<open>
  Each entry point is a linear pipeline; the lemmas below spell out its result for a failed
  and a successful listing, with the nested calls unfolded.
\<close>

lemma GetCustomMetric_listed:
  assumes "client h namespace selector = Inr items"
  shows "GetCustomMetric h customMetricName namespace selector =
    (if not_pending items = [] \<and> items \<noteq> []
     then ([], Return (None, ZeroTime, Some NoRunningPods))
     else let names = map pod_name (not_pending items);
              reg = podListReg_of names;
              q = custom_query customMetricName namespace reg
          in ([q],
              case queryAPI h q of
                Inl err \<Rightarrow>
                  Return (None, ZeroTime, Some (FailedToGetMetrics customMetricName reg err))
              | Inr (ValVector []) \<Rightarrow>
                  Return (None, ZeroTime, Some (MetricMissing customMetricName reg))
              | Inr (ValVector (m # ms)) \<Rightarrow>
                  Return (Some (f64_div (sample_value m) (f64_of_int (int (length names)))),
                          TimeOfMillis (sample_timestamp m), None)
              | Inr _ \<Rightarrow> Panic InterfaceConversion))"
  using assms
  by (simp add: GetCustomMetric_def getCustomMetricForPods_def custom_podNames_eq Let_def
           split: sum.splits model_value.splits list.splits)

lemma GetCPUUtilization_listed:
  assumes "client h namespace selector = Inr items"
  shows "GetCPUUtilization h range_order namespace selector =
    (let st = scan_pods items
     in if podNames st = [] \<and> items \<noteq> []
        then ([], Return (None, ZeroTime,
                Some (FailedToGetCpuConsumptionAndRequest NoRunningPods)))
        else if missing st \<or> requestSum st = 0
        then ([], Return (None, ZeroTime,
                Some (FailedToGetCpuConsumptionAndRequest NoCpuRequest)))
        else case int64_quo (requestSum st) (of_nat (length (podNames st))) of
               None \<Rightarrow> ([], Panic IntegerDivideByZero)
             | Some requestAvg \<Rightarrow>
                 (let reg = podListReg_of (range_order (podNames st));
                      q = cpu_query namespace reg
                  in ([q],
                      case queryAPI h q of
                        Inl err \<Rightarrow>
                          Return (None, ZeroTime,
                            Some (FailedToGetCpuConsumptionAndRequest
                              (FailedToGetMetrics DefaultCPUUtilizationMetric reg err)))
                      | Inr (ValVector []) \<Rightarrow>
                          Return (None, ZeroTime,
                            Some (FailedToGetCpuConsumptionAndRequest (CpuMetricsMissing reg)))
                      | Inr (ValVector (m # ms)) \<Rightarrow>
                          (case int64_quo
                                  (f64_to_int64
                                     (f64_div (f64_mul (sample_value m) (Finite False 1000))
                                        (f64_of_int (int (length (podNames st))))) * 100)
                                  requestAvg of
                             None \<Rightarrow> Panic IntegerDivideByZero
                           | Some utilization \<Rightarrow>
                               Return (Some utilization, TimeOfMillis (sample_timestamp m), None))
                      | Inr _ \<Rightarrow> Panic InterfaceConversion)))"
  using assms
  by (simp add: GetCPUUtilization_def GetCpuConsumptionAndRequestInMillis_def
        getCpuUtilizationForPods_def Let_def
      split: sum.splits model_value.splits list.splits option.splits)

lemma GetCustomMetric_not_listed:
  "client h namespace selector = Inl err \<Longrightarrow>
   GetCustomMetric h customMetricName namespace selector =
     ([], Return (None, ZeroTime, Some (FailedToGetPodList err)))"
  by (simp add: GetCustomMetric_def)

lemma GetCPUUtilization_not_listed:
  "client h namespace selector = Inl err \<Longrightarrow>
   GetCPUUtilization h range_order namespace selector =
     ([], Return (None, ZeroTime,
            Some (FailedToGetCpuConsumptionAndRequest (FailedToGetPodList err))))"
  by (simp add: GetCPUUtilization_def GetCpuConsumptionAndRequestInMillis_def)

lemma kind_of_not_shape: "kind_of e \<noteq> UnexpectedResultShape"
  by (induction e) simp_all

subsection \<open>The utilization where nothing overflows\<close>

text \<open>
  Let the listing succeed with pods of distinct names, let every container of a running pod
  have a CPU request, all requests non-negative with a sum \<open>requestTotal\<close> below \<open>2\<^sup>6\<^sup>3\<close>, and
  let the backend answer the query with a non-empty vector. With \<open>n\<close> the number of running
  pods, \<open>avgRequestMilli\<close> the integer quotient of \<open>requestTotal\<close> by \<open>n\<close>, and
  \<open>avgConsumptionMilli\<close> the \<^verbatim>\<open>int64\<close> conversion of the \<^verbatim>\<open>float64\<close> value "first sample
  times 1000, divided by \<open>n\<close>": if \<open>avgRequestMilli\<close> is not zero, \<open>avgConsumptionMilli\<close> is
  not negative and \<open>avgConsumptionMilli * 100\<close> is below \<open>2\<^sup>6\<^sup>3\<close>, then \<open>GetCPUUtilization\<close>
  returns \<open>\<lfloor>avgConsumptionMilli * 100 / avgRequestMilli\<rfloor>\<close> with the timestamp of the first
  sample and no error. In the scenario of the specification (requests 100m and 300m, one
  sample of value 0.4) the utilization is 100.
\<close>

lemma GetCPUUtilization_in_range:
  assumes listing: "client h namespace selector = Inr items"
    and names: "distinct (map pod_name (running items))"
    and explicit: "\<not> lacks_request (running items)"
    and nonneg: "\<forall>r \<in> set (cpu_requests (running items)). 0 \<le> sint r"
    and total: "requestTotal = sum_list (map sint (cpu_requests (running items)))"
    and total_bound: "requestTotal < 2 ^ 63"
    and total_nonzero: "requestTotal \<noteq> 0"
    and count: "n = length (running items)"
    and avgR: "avgRequestMilli = requestTotal div int n"
    and avgR_nonzero: "avgRequestMilli \<noteq> 0"
    and backend: "queryAPI h (cpu_query namespace
        (podListReg_of (range_order (map pod_name (running items))))) = Inr (ValVector (m # ms))"
    and avgC: "avgConsumptionMilli =
        sint (f64_to_int64 (f64_div (f64_mul (sample_value m) (Finite False 1000))
                              (f64_of_int (int n))))"
    and avgC_nonneg: "0 \<le> avgConsumptionMilli"
    and avgC_bound: "avgConsumptionMilli * 100 < 2 ^ 63"
  shows "snd (GetCPUUtilization h range_order namespace selector) =
           Return (Some (word_of_int
                     \<lfloor>rat_of_int (avgConsumptionMilli * 100) / rat_of_int avgRequestMilli\<rfloor>),
                   TimeOfMillis (sample_timestamp m), None)"
proof -
  let ?st = "scan_pods items"
  have pods: "podNames ?st = map pod_name (running items)"
    using insert_all_distinct [of "[]" "map pod_name (running items)"] names
    by (simp add: scan_pods_podNames)
  then have len: "length (podNames ?st) = n"
    by (simp add: count)
  have sum_sint: "sint (requestSum ?st) = requestTotal"
    using sint_sum_list [OF nonneg] total total_bound by (simp add: scan_pods_requestSum)
  then have sum_word: "requestSum ?st = word_of_int requestTotal"
    using int64_of_sint [of "requestSum ?st"] by simp
  have sum_nonzero: "requestSum ?st \<noteq> 0"
    using sum_sint total_nonzero by (metis sint_0)
  have total_pos: "0 \<le> requestTotal"
    using nonneg total by (auto intro!: sum_list_nonneg)
  have n_pos: "0 < n"
    using avgR avgR_nonzero by (cases n) simp_all
  have avgR_pos: "0 < avgRequestMilli"
  proof -
    have "0 \<le> requestTotal div int n"
      using total_pos by (simp add: pos_imp_zdiv_nonneg_iff n_pos)
    with avgR avgR_nonzero show ?thesis
      by simp
  qed
  have n_le: "int n \<le> requestTotal"
  proof (rule ccontr)
    assume "\<not> int n \<le> requestTotal"
    with total_pos have "requestTotal div int n = 0"
      by (simp add: div_pos_pos_trivial)
    with avgR avgR_nonzero show False
      by simp
  qed
  have avgR_le: "avgRequestMilli \<le> requestTotal"
    using zdiv_mono2 [of requestTotal 1 "int n"] total_pos n_pos by (simp add: avgR)
  have n_word: "(of_nat n :: int64) = word_of_int (int n)"
    by simp
  have quo1: "int64_quo (requestSum ?st) (of_nat (length (podNames ?st))) =
      Some (word_of_int avgRequestMilli)"
    unfolding len sum_word n_word avgR
    using total_pos total_bound n_pos n_le by (intro int64_quo_nonneg) simp_all
  let ?c = "f64_to_int64 (f64_div (f64_mul (sample_value m) (Finite False 1000))
              (f64_of_int (int n)))"
  have c_word: "?c * 100 = word_of_int (avgConsumptionMilli * 100)"
    using int64_of_sint [of ?c] by (simp add: avgC)
  have quo2: "int64_quo (?c * 100) (word_of_int avgRequestMilli) =
      Some (word_of_int ((avgConsumptionMilli * 100) div avgRequestMilli))"
    unfolding c_word
    using avgC_nonneg avgC_bound avgR_pos avgR_le total_bound
    by (intro int64_quo_nonneg) simp_all
  have no_names: "podNames ?st \<noteq> []"
    using len n_pos by auto
  have not_missing: "\<not> missing ?st"
    using explicit by (simp add: scan_pods_missing)
  have floor_eq: "\<lfloor>rat_of_int (avgConsumptionMilli * 100) / rat_of_int avgRequestMilli\<rfloor> =
      (avgConsumptionMilli * 100) div avgRequestMilli"
    by (rule floor_divide_of_int_eq)
  show ?thesis
    unfolding floor_eq
    using backend no_names not_missing sum_nonzero quo1 quo2
    by (simp add: GetCPUUtilization_listed [OF listing] Let_def pods count [symmetric])
qed

lemma GetCPUUtilization_scenario:
  "snd (GetCPUUtilization
          (fixed_client
             (Inr [a_pod ''a'' PodRunning [Some 100], a_pod ''b'' PodRunning [Some 300]])
             (Inr (ValVector [a_sample (2 / 5) 1500])))
          id ''ns1'' ()) =
     Return (Some 100, TimeOfMillis 1500, None)"
proof -
  let ?items = "[a_pod ''a'' PodRunning [Some 100], a_pod ''b'' PodRunning [Some 300]]"
  let ?m = "a_sample (2 / 5) 1500"
  let ?h = "fixed_client (Inr ?items) (Inr (ValVector [?m]))"
  have run: "running ?items = ?items"
    by (simp add: running_def a_pod_def)
  have reqs: "cpu_requests ?items = [100, 300]"
    by (simp add: cpu_requests_def a_pod_def List.map_filter_simps)
  have "snd (GetCPUUtilization ?h id ''ns1'' ()) =
      Return (Some (word_of_int \<lfloor>rat_of_int (200 * 100) / rat_of_int 200\<rfloor>),
              TimeOfMillis (sample_timestamp ?m), None)"
  proof (rule GetCPUUtilization_in_range [where items = ?items and requestTotal = 400 and n = 2
        and ms = "[]"])
    show "client ?h ''ns1'' () = Inr ?items"
      by (simp add: fixed_client_def)
    show "distinct (map pod_name (running ?items))"
      unfolding run by (simp add: a_pod_def)
    show "\<not> lacks_request (running ?items)"
      unfolding run by (simp add: lacks_request_def a_pod_def)
    show "\<forall>r \<in> set (cpu_requests (running ?items)). 0 \<le> sint r"
      unfolding run reqs by simp
    show "400 = sum_list (map sint (cpu_requests (running ?items)))"
      unfolding run reqs by simp
    show "queryAPI ?h (cpu_query ''ns1''
        (podListReg_of (id (map pod_name (running ?items))))) = Inr (ValVector [?m])"
      by (simp add: fixed_client_def)
    show "200 = sint (f64_to_int64 (f64_div (f64_mul (sample_value ?m) (Finite False 1000))
        (f64_of_int (int 2))))"
      by code_simp
    show "(200 :: int) = 400 div int 2"
      by simp
    show "2 = length (running ?items)"
      unfolding run by simp
  qed simp_all
  then show ?thesis
    by (simp add: a_sample_def)
qed

section \<open>The claims\<close>

text \<open>
  Claim C1. The claim promises the percentage \<open>\<lfloor>avgConsumptionMilli * 100 / avgRequestMilli\<rfloor>\<close>
  whenever every container of a running pod has a CPU request, the sum of the requests is
  not zero and the backend has a sample. The source guards against \<^verbatim>\<open>requestSum == 0\<close> only,
  and the average \<^verbatim>\<open>requestSum / int64(len(podNames))\<close> can still be zero. For two running
  pods with requests of 1m and 0m every premise of the claim holds, the sum is 1,
  \<open>GetCpuConsumptionAndRequestInMillis\<close> returns the consumption 200 with the average
  request 0, and \<open>GetCPUUtilization\<close> panics on the division by that average, after the
  query, instead of returning a percentage or an error.
\<close>

theorem C1_zero_average_panics:
  "\<not> lacks_request (running [a_pod ''a'' PodRunning [Some 1], a_pod ''b'' PodRunning [Some 0]]) \<and>
   sum_list (cpu_requests
     (running [a_pod ''a'' PodRunning [Some 1], a_pod ''b'' PodRunning [Some 0]])) = 1 \<and>
   snd (GetCpuConsumptionAndRequestInMillis
     (fixed_client (Inr [a_pod ''a'' PodRunning [Some 1], a_pod ''b'' PodRunning [Some 0]])
        (Inr (ValVector [a_sample (2 / 5) 1500])))
     id ''ns1'' ()) =
     Return (200, 0, TimeOfMillis 1500, None) \<and>
   GetCPUUtilization
     (fixed_client (Inr [a_pod ''a'' PodRunning [Some 1], a_pod ''b'' PodRunning [Some 0]])
        (Inr (ValVector [a_sample (2 / 5) 1500])))
     id ''ns1'' () =
     ([cpu_query ''ns1'' ''(a|b|).*''], Panic IntegerDivideByZero)"
  by code_simp

text \<open>
  Claim C2. The claim asks for the pattern \<^verbatim>\<open>(name1|name2|...).*\<close> with no separator before
  the closing parenthesis. The source discards the result of \<^verbatim>\<open>strings.TrimSuffix\<close>, so the
  separator stays after the last name of every non-empty name list: for the single pod
  \<^verbatim>\<open>a\<close> both paths send a query with the pattern \<^verbatim>\<open>(a|).*\<close>.
\<close>

theorem C2_trailing_separator:
  "podListReg_of (names @ [name]) =
     ''('' @ concat (map (\<lambda>n. n @ ''|'') names) @ name @ ''|).*'' \<and>
   podListReg_of [''a''] = ''(a|).*'' \<and>
   podListReg_of [''a'', ''b''] = ''(a|b|).*'' \<and>
   fst (GetCPUUtilization
          (fixed_client (Inr [a_pod ''a'' PodRunning [Some 100]]) (Inr (ValVector [])))
          id ''ns1'' ()) =
     [''sum(rate({__name__='' @ quote @ ''container_cpu_usage_seconds_total'' @ quote @
      '',namespace='' @ quote @ ''ns1'' @ quote @
      '',pod_name=~'' @ quote @ ''(a|).*'' @ quote @ ''}[30m]))''] \<and>
   fst (GetCustomMetric
          (fixed_client (Inr [a_pod ''a'' PodRunning [Some 100]]) (Inr (ValVector [])))
          ''qos'' ''ns1'' ()) =
     [''sum({__name__='' @ quote @ ''qos'' @ quote @
      '',kubernetes_namespace='' @ quote @ ''ns1'' @ quote @
      '',kubernetes_pod_name=~'' @ quote @ ''(a|).*'' @ quote @ ''})'']"
proof -
  have "podListReg_of (names @ [name]) =
     ''('' @ concat (map (\<lambda>n. n @ ''|'') names) @ name @ ''|).*''"
    by (simp add: podListReg_of_eq)
  moreover have "podListReg_of [''a''] = ''(a|).*''" "podListReg_of [''a'', ''b''] = ''(a|b|).*''"
    by (simp_all add: podListReg_of_eq)
  moreover have "fst (GetCPUUtilization
          (fixed_client (Inr [a_pod ''a'' PodRunning [Some 100]]) (Inr (ValVector [])))
          id ''ns1'' ()) =
     [''sum(rate({__name__='' @ quote @ ''container_cpu_usage_seconds_total'' @ quote @
      '',namespace='' @ quote @ ''ns1'' @ quote @
      '',pod_name=~'' @ quote @ ''(a|).*'' @ quote @ ''}[30m]))'']"
    by code_simp
  moreover have "fst (GetCustomMetric
          (fixed_client (Inr [a_pod ''a'' PodRunning [Some 100]]) (Inr (ValVector [])))
          ''qos'' ''ns1'' ()) =
     [''sum({__name__='' @ quote @ ''qos'' @ quote @
      '',kubernetes_namespace='' @ quote @ ''ns1'' @ quote @
      '',kubernetes_pod_name=~'' @ quote @ ''(a|).*'' @ quote @ ''})'']"
    by code_simp
  ultimately show ?thesis
    by simp
qed

text \<open>
  Claim C3, amended. The claim asks for an explicit \<open>UnexpectedResultShape\<close> error on a query
  result that is not a sample vector. The source narrows the result with the unchecked type
  assertion \<^verbatim>\<open>result.(model.Vector)\<close>, so what holds is: once an entry point has sent its
  query and the backend answers with a result of another shape, the call panics at the
  assertion; and no error that the client creates has the kind \<open>UnexpectedResultShape\<close>.
\<close>

theorem C3_non_vector_panics:
  assumes "\<forall>ms. v \<noteq> ValVector ms"
  shows "(fst (GetCPUUtilization h range_order namespace selector) = [q] \<and>
          queryAPI h q = Inr v \<longrightarrow>
            snd (GetCPUUtilization h range_order namespace selector) =
              Panic InterfaceConversion) \<and>
         (fst (GetCustomMetric h customMetricName namespace selector) = [q'] \<and>
          queryAPI h q' = Inr v \<longrightarrow>
            snd (GetCustomMetric h customMetricName namespace selector) =
              Panic InterfaceConversion) \<and>
         kind_of e \<noteq> UnexpectedResultShape"
proof (cases "client h namespace selector")
  case (Inl err)
  then show ?thesis
    by (simp add: GetCPUUtilization_not_listed GetCustomMetric_not_listed kind_of_not_shape)
next
  case (Inr items)
  have "fst (GetCPUUtilization h range_order namespace selector) = [q] \<and>
          queryAPI h q = Inr v \<longrightarrow>
            snd (GetCPUUtilization h range_order namespace selector) =
              Panic InterfaceConversion"
    using assms
    by (cases v) (simp_all add: GetCPUUtilization_listed [OF Inr] Let_def split: option.split)
  moreover
  have "fst (GetCustomMetric h customMetricName namespace selector) = [q'] \<and>
          queryAPI h q' = Inr v \<longrightarrow>
            snd (GetCustomMetric h customMetricName namespace selector) =
              Panic InterfaceConversion"
    using assms
    by (cases v) (simp_all add: GetCustomMetric_listed [OF Inr] Let_def)
  ultimately show ?thesis
    by (simp add: kind_of_not_shape)
qed

theorem C3_non_vector_panics_witness:
  "snd (GetCPUUtilization
          (fixed_client (Inr [a_pod ''a'' PodRunning [Some 100]])
             (Inr (ValMatrix [[a_sample 30 1500]])))
          id ''ns1'' ()) = Panic InterfaceConversion \<and>
   snd (GetCustomMetric
          (fixed_client (Inr [a_pod ''a'' PodRunning [Some 100]])
             (Inr (ValMatrix [[a_sample 30 1500]])))
          ''qos'' ''ns1'' ()) = Panic InterfaceConversion"
proof -
  let ?h = "fixed_client (Inr [a_pod ''a'' PodRunning [Some 100]])
              (Inr (ValMatrix [[a_sample 30 1500]]))"
  have cpu: "fst (GetCPUUtilization ?h id ''ns1'' ()) = [cpu_query ''ns1'' ''(a|).*'']"
    by code_simp
  have custom: "fst (GetCustomMetric ?h ''qos'' ''ns1'' ()) = [custom_query ''qos'' ''ns1'' ''(a|).*'']"
    by code_simp
  have answer: "queryAPI ?h q = Inr (ValMatrix [[a_sample 30 1500]])" for q
    by (simp add: fixed_client_def)
  have shape: "\<forall>ms. ValMatrix [[a_sample 30 1500]] \<noteq> ValVector ms"
    by simp
  from C3_non_vector_panics [OF shape, of ?h id "''ns1''" "()" "cpu_query ''ns1'' ''(a|).*''"
      "''qos''" "custom_query ''qos'' ''ns1'' ''(a|).*''"] cpu custom answer
  show ?thesis
    by simp
qed

text \<open>
  The claim as stated fails on a scalar result: both entry points panic.
\<close>

theorem C3_scalar_counterexample:
  "snd (GetCPUUtilization
          (fixed_client (Inr [a_pod ''a'' PodRunning [Some 100]])
             (Inr (ValScalar (Finite False 1) 1500)))
          id ''ns1'' ()) = Panic InterfaceConversion \<and>
   snd (GetCustomMetric
          (fixed_client (Inr [a_pod ''a'' PodRunning [Some 100]])
             (Inr (ValScalar (Finite False 1) 1500)))
          ''qos'' ''ns1'' ()) = Panic InterfaceConversion"
  by code_simp




text \<open>
  Claim C5, amended. The claim's equivalence leaves out the guard that comes first in the
  source. With a successful listing, \<open>GetCPUUtilization\<close> fails with an error of kind
  \<open>MissingResourceRequest\<close> if and only if the list is empty or has a running pod, and
  some container of a running pod has no CPU request or the 64-bit sum of the requests of
  the running pods is zero. A running pod with a container without a request causes the
  failure whatever the other pods request. A query is sent only with a non-zero sum and at
  least one running pod, and the division of the sum by the number of names never panics
  (the length of a Go slice is below \<open>2\<^sup>6\<^sup>3\<close>).
\<close>

theorem C5_missing_request:
  assumes "client h namespace selector = Inr items" and "length items < 2 ^ 63"
  shows "((\<exists>e. snd (GetCPUUtilization h range_order namespace selector) =
                 Return (None, ZeroTime, Some e) \<and>
               kind_of e = MissingResourceRequest) \<longleftrightarrow>
            (items = [] \<or> running items \<noteq> []) \<and>
            (lacks_request (running items) \<or> sum_list (cpu_requests (running items)) = 0)) \<and>
         (running items \<noteq> [] \<and> lacks_request (running items) \<longrightarrow>
            GetCPUUtilization h range_order namespace selector =
              ([], Return (None, ZeroTime,
                     Some (FailedToGetCpuConsumptionAndRequest NoCpuRequest)))) \<and>
         (fst (GetCPUUtilization h range_order namespace selector) \<noteq> [] \<longrightarrow>
            sum_list (cpu_requests (running items)) \<noteq> 0 \<and> running items \<noteq> []) \<and>
         snd (GetCpuConsumptionAndRequestInMillis h range_order namespace selector) \<noteq>
           Panic IntegerDivideByZero"
proof -
  let ?st = "scan_pods items"
  let ?n = "length (podNames ?st)"
  have bound: "?n < 2 ^ 63"
    using length_scan_pods_podNames [of items] assms(2) by simp
  have quo: "int64_quo (requestSum ?st) (of_nat ?n) = None \<longleftrightarrow> running items = []"
    using int64_of_nat_eq_0_iff [OF bound]
    by (simp add: int64_quo_def scan_pods_no_names)
  have zero_sum: "running items = [] \<Longrightarrow> sum_list (cpu_requests (running items)) = 0"
    by (simp add: cpu_requests_def)
  have iff: "(\<exists>e. snd (GetCPUUtilization h range_order namespace selector) =
                 Return (None, ZeroTime, Some e) \<and>
               kind_of e = MissingResourceRequest) \<longleftrightarrow>
            (items = [] \<or> running items \<noteq> []) \<and>
            (lacks_request (running items) \<or> sum_list (cpu_requests (running items)) = 0)"
    using quo zero_sum
    by (auto simp: GetCPUUtilization_listed [OF assms(1)] Let_def scan_pods_no_names
          scan_pods_missing scan_pods_requestSum running_def
        split: option.splits sum.splits model_value.splits list.splits)
  have one: "running items \<noteq> [] \<and> lacks_request (running items) \<longrightarrow>
            GetCPUUtilization h range_order namespace selector =
              ([], Return (None, ZeroTime,
                     Some (FailedToGetCpuConsumptionAndRequest NoCpuRequest)))"
    by (simp add: GetCPUUtilization_listed [OF assms(1)] Let_def scan_pods_no_names
          scan_pods_missing)
  have reached: "fst (GetCPUUtilization h range_order namespace selector) \<noteq> [] \<longrightarrow>
            sum_list (cpu_requests (running items)) \<noteq> 0 \<and> running items \<noteq> []"
    using zero_sum
    by (auto simp: GetCPUUtilization_listed [OF assms(1)] Let_def scan_pods_no_names
          scan_pods_missing scan_pods_requestSum
        split: option.splits if_splits)
  have no_panic: "snd (GetCpuConsumptionAndRequestInMillis h range_order namespace selector) \<noteq>
           Panic IntegerDivideByZero"
    using quo zero_sum assms(1)
    by (auto simp: GetCpuConsumptionAndRequestInMillis_def getCpuUtilizationForPods_def Let_def
          scan_pods_no_names scan_pods_requestSum
        split: option.splits sum.splits model_value.splits list.splits)
  from iff one reached no_panic show ?thesis
    by blast
qed

theorem C5_missing_request_witness:
  "GetCPUUtilization
     (fixed_client (Inr [a_pod ''a'' PodRunning [Some 100], a_pod ''b'' PodRunning [None]])
        (Inr (ValVector [a_sample (2 / 5) 1500])))
     id ''ns1'' () =
     ([], Return (None, ZeroTime, Some (FailedToGetCpuConsumptionAndRequest NoCpuRequest)))"
proof -
  let ?items = "[a_pod ''a'' PodRunning [Some 100], a_pod ''b'' PodRunning [None]]"
  let ?h = "fixed_client (Inr ?items) (Inr (ValVector [a_sample (2 / 5) 1500]))"
  have listing: "client ?h ''ns1'' () = Inr ?items"
    by (simp add: fixed_client_def)
  have bound: "length ?items < 2 ^ 63"
    by simp
  have run: "running ?items = ?items"
    by (simp add: running_def a_pod_def)
  have lacks: "running ?items \<noteq> [] \<and> lacks_request (running ?items)"
    unfolding run by (simp add: lacks_request_def a_pod_def)
  from C5_missing_request [OF listing bound, of id] lacks show ?thesis
    by blast
qed

text \<open>
  The claim as stated fails on a list with one pending pod: no pod is counted, the sum of
  the counted requests is zero, and the failure is \<open>NoEligiblePods\<close>.
\<close>

theorem C5_no_running_pod_counterexample:
  "sum_list (cpu_requests (running [a_pod ''a'' PodPending [Some 100]])) = 0 \<and>
   GetCPUUtilization
     (fixed_client (Inr [a_pod ''a'' PodPending [Some 100]])
        (Inr (ValVector [a_sample (2 / 5) 1500])))
     id ''ns1'' () =
     ([], Return (None, ZeroTime, Some (FailedToGetCpuConsumptionAndRequest NoRunningPods))) \<and>
   kind_of (FailedToGetCpuConsumptionAndRequest NoRunningPods) = NoEligiblePods"
  by code_simp

text \<open>
  Claim C6. When the listing succeeds with a non-empty pod list and the phase filter leaves
  no eligible pod, the entry point fails with an error of kind \<open>NoEligiblePods\<close>, the value
  absent and the zero timestamp, and has sent no query to the backend: \<open>GetCPUUtilization\<close>
  when no listed pod is running, \<open>GetCustomMetric\<close> when every listed pod is pending.
\<close>

theorem C6_no_eligible_pods:
  assumes "client h namespace selector = Inr items" and "items \<noteq> []"
  shows "((\<forall>pod \<in> set items. pod_phase pod \<noteq> PodRunning) \<longrightarrow>
            GetCPUUtilization h range_order namespace selector =
              ([], Return (None, ZeroTime,
                     Some (FailedToGetCpuConsumptionAndRequest NoRunningPods))) \<and>
            kind_of (FailedToGetCpuConsumptionAndRequest NoRunningPods) = NoEligiblePods) \<and>
         ((\<forall>pod \<in> set items. pod_phase pod = PodPending) \<longrightarrow>
            GetCustomMetric h customMetricName namespace selector =
              ([], Return (None, ZeroTime, Some NoRunningPods)) \<and>
            kind_of NoRunningPods = NoEligiblePods)"
proof (intro conjI impI)
  assume "\<forall>pod \<in> set items. pod_phase pod \<noteq> PodRunning"
  then have "running items = []"
    by (simp add: running_def filter_empty_conv)
  then have "podNames (scan_pods items) = []"
    by (simp add: scan_pods_no_names)
  with assms show "GetCPUUtilization h range_order namespace selector =
      ([], Return (None, ZeroTime, Some (FailedToGetCpuConsumptionAndRequest NoRunningPods)))"
    by (simp add: GetCPUUtilization_def GetCpuConsumptionAndRequestInMillis_def Let_def)
next
  assume "\<forall>pod \<in> set items. pod_phase pod = PodPending"
  then have "not_pending items = []"
    by (simp add: not_pending_def filter_empty_conv)
  then have "custom_podNames items = []"
    by (simp add: custom_podNames_eq)
  with assms show "GetCustomMetric h customMetricName namespace selector =
      ([], Return (None, ZeroTime, Some NoRunningPods))"
    by (simp add: GetCustomMetric_def Let_def)
qed simp_all

theorem C6_no_eligible_pods_witness:
  "GetCPUUtilization (fixed_client (Inr [a_pod ''a'' PodPending [Some 100]]) (Inl ''down''))
      id ''ns1'' () =
     ([], Return (None, ZeroTime, Some (FailedToGetCpuConsumptionAndRequest NoRunningPods))) \<and>
   GetCustomMetric (fixed_client (Inr [a_pod ''a'' PodPending [Some 100]]) (Inl ''down''))
      ''qos'' ''ns1'' () =
     ([], Return (None, ZeroTime, Some NoRunningPods))"
  using C6_no_eligible_pods [of "fixed_client (Inr [a_pod ''a'' PodPending [Some 100]]) (Inl ''down'')"
      "''ns1''" "()" "[a_pod ''a'' PodPending [Some 100]]" id "''qos''"]
  by (simp add: fixed_client_def a_pod_def)

text \<open>
  Claim C7. When the backend answers the query that an entry point sent with a sample
  vector of length zero, the entry point fails with an error of kind
  \<open>NoMatchingMetricSamples\<close>: the value it returns is absent (the pointer is nil), the
  timestamp is zero and the error is not nil. This holds for \<open>GetCPUUtilization\<close> and for
  \<open>GetCustomMetric\<close>.
\<close>

theorem C7_no_samples:
  "(fst (GetCPUUtilization h range_order namespace selector) = [q] \<and>
    queryAPI h q = Inr (ValVector []) \<longrightarrow>
      (\<exists>e. snd (GetCPUUtilization h range_order namespace selector) =
             Return (None, ZeroTime, Some e) \<and>
           kind_of e = NoMatchingMetricSamples)) \<and>
   (fst (GetCustomMetric h customMetricName namespace selector) = [q'] \<and>
    queryAPI h q' = Inr (ValVector []) \<longrightarrow>
      (\<exists>e. snd (GetCustomMetric h customMetricName namespace selector) =
             Return (None, ZeroTime, Some e) \<and>
           kind_of e = NoMatchingMetricSamples))"
proof (cases "client h namespace selector")
  case (Inl err)
  then show ?thesis
    by (simp add: GetCPUUtilization_not_listed GetCustomMetric_not_listed)
next
  case (Inr items)
  show ?thesis
    by (auto simp: GetCPUUtilization_listed [OF Inr] GetCustomMetric_listed [OF Inr] Let_def
             split: option.splits if_splits)
qed

theorem C7_no_samples_witness:
  "fst (GetCPUUtilization (fixed_client (Inr [a_pod ''a'' PodRunning [Some 100]])
          (Inr (ValVector []))) id ''ns1'' ()) = [cpu_query ''ns1'' ''(a|).*''] \<and>
   snd (GetCPUUtilization (fixed_client (Inr [a_pod ''a'' PodRunning [Some 100]])
          (Inr (ValVector []))) id ''ns1'' ()) =
     Return (None, ZeroTime,
       Some (FailedToGetCpuConsumptionAndRequest (CpuMetricsMissing ''(a|).*''))) \<and>
   fst (GetCustomMetric (fixed_client (Inr [a_pod ''a'' PodRunning [Some 100]])
          (Inr (ValVector []))) ''qos'' ''ns1'' ()) = [custom_query ''qos'' ''ns1'' ''(a|).*''] \<and>
   snd (GetCustomMetric (fixed_client (Inr [a_pod ''a'' PodRunning [Some 100]])
          (Inr (ValVector []))) ''qos'' ''ns1'' ()) =
     Return (None, ZeroTime, Some (MetricMissing ''qos'' ''(a|).*''))"
proof -
  let ?h = "fixed_client (Inr [a_pod ''a'' PodRunning [Some 100]]) (Inr (ValVector []))"
  have cpu: "fst (GetCPUUtilization ?h id ''ns1'' ()) = [cpu_query ''ns1'' ''(a|).*'']"
    by code_simp
  have custom: "fst (GetCustomMetric ?h ''qos'' ''ns1'' ()) = [custom_query ''qos'' ''ns1'' ''(a|).*'']"
    by code_simp
  have answer: "queryAPI ?h q = Inr (ValVector [])" for q
    by (simp add: fixed_client_def)
  from C7_no_samples [of ?h id "''ns1''" "()" "cpu_query ''ns1'' ''(a|).*''"
      "''qos''" "custom_query ''qos'' ''ns1'' ''(a|).*''"] cpu custom answer
  obtain e e' where
    "snd (GetCPUUtilization ?h id ''ns1'' ()) = Return (None, ZeroTime, Some e)"
    "snd (GetCustomMetric ?h ''qos'' ''ns1'' ()) = Return (None, ZeroTime, Some e')"
    by blast
  moreover have "snd (GetCPUUtilization ?h id ''ns1'' ()) =
     Return (None, ZeroTime,
       Some (FailedToGetCpuConsumptionAndRequest (CpuMetricsMissing ''(a|).*'')))"
    by code_simp
  moreover have "snd (GetCustomMetric ?h ''qos'' ''ns1'' ()) =
     Return (None, ZeroTime, Some (MetricMissing ''qos'' ''(a|).*''))"
    by code_simp
  ultimately show ?thesis
    using cpu custom by simp
qed

text \<open>
  Claim C8. When the listing succeeds with at least one pod that is not pending and the
  backend answers the query with a non-empty sample vector, \<open>GetCustomMetric\<close> returns the
  value of the first sample divided, in \<^verbatim>\<open>float64\<close> arithmetic, by the number of pods that
  are not pending, with the timestamp of that sample and no error. The scenario of the
  specification (three eligible pods, a reported sum of 30.0, the result 10.0) is the
  witness.
\<close>

theorem C8_custom_metric:
  assumes "client h namespace selector = Inr items"
    and "not_pending items \<noteq> []"
    and "queryAPI h (custom_query customMetricName namespace
           (podListReg_of (map pod_name (not_pending items)))) = Inr (ValVector (m # ms))"
  shows "snd (GetCustomMetric h customMetricName namespace selector) =
           Return (Some (f64_div (sample_value m) (f64_of_int (int (length (not_pending items))))),
                   TimeOfMillis (sample_timestamp m), None)"
  using assms by (simp add: GetCustomMetric_listed Let_def)

theorem C8_custom_metric_witness:
  "snd (GetCustomMetric
          (fixed_client
             (Inr [a_pod ''a'' PodRunning [Some 100], a_pod ''b'' PodPending [Some 100],
                   a_pod ''c'' PodSucceeded [None], a_pod ''d'' PodFailed []])
             (Inr (ValVector [a_sample 30 1500])))
          ''qos'' ''ns1'' ()) =
     Return (Some (Finite False 10), TimeOfMillis 1500, None)"
proof -
  let ?items = "[a_pod ''a'' PodRunning [Some 100], a_pod ''b'' PodPending [Some 100],
                 a_pod ''c'' PodSucceeded [None], a_pod ''d'' PodFailed []]"
  let ?h = "fixed_client (Inr ?items) (Inr (ValVector [a_sample 30 1500]))"
  have eligible: "not_pending ?items =
      [a_pod ''a'' PodRunning [Some 100], a_pod ''c'' PodSucceeded [None], a_pod ''d'' PodFailed []]"
    by (simp add: not_pending_def a_pod_def)
  have three: "f64_div (sample_value (a_sample 30 1500)) (f64_of_int (int (length (not_pending ?items)))) =
      Finite False 10"
    unfolding eligible by code_simp
  have "snd (GetCustomMetric ?h ''qos'' ''ns1'' ()) =
      Return (Some (f64_div (sample_value (a_sample 30 1500))
                      (f64_of_int (int (length (not_pending ?items))))),
              TimeOfMillis (sample_timestamp (a_sample 30 1500)), None)"
    by (rule C8_custom_metric [of ?h "''ns1''" "()" ?items "''qos''" _ "[]"])
       (simp_all add: fixed_client_def eligible)
  then show ?thesis
    unfolding three by (simp add: a_sample_def)
qed

text \<open>
  Claim C9. The two entry points filter by phase differently. In the CPU path the loop
  collects the names of exactly the running pods (each name once; for distinct names the
  name list of the running pods itself), sums the requests of their containers and sets
  the flag for a missing request from their containers only, and it gives the same result
  on the running pods alone as on the whole list. In the custom-metric path the name list,
  whose length is the divisor, holds the name of a pod if and only if the pod is not
  pending. Whenever the filtered list is not empty, each entry point returns on the
  filtered list what it returns on the whole list.
\<close>

theorem C9_phase_filters:
  "set (podNames (scan_pods items)) = pod_name ` set (running items) \<and>
   distinct (podNames (scan_pods items)) \<and>
   (distinct (map pod_name (running items)) \<longrightarrow>
      podNames (scan_pods items) = map pod_name (running items)) \<and>
   requestSum (scan_pods items) = sum_list (cpu_requests (running items)) \<and>
   missing (scan_pods items) = lacks_request (running items) \<and>
   scan_pods (running items) = scan_pods items \<and>
   custom_podNames items = map pod_name (not_pending items) \<and>
   custom_podNames (not_pending items) = custom_podNames items \<and>
   (running items \<noteq> [] \<longrightarrow>
      GetCPUUtilization (h\<lparr>client := \<lambda>namespace selector. Inr (running items)\<rparr>)
        range_order namespace selector =
      GetCPUUtilization (h\<lparr>client := \<lambda>namespace selector. Inr items\<rparr>)
        range_order namespace selector) \<and>
   (not_pending items \<noteq> [] \<longrightarrow>
      GetCustomMetric (h\<lparr>client := \<lambda>namespace selector. Inr (not_pending items)\<rparr>)
        customMetricName namespace selector =
      GetCustomMetric (h\<lparr>client := \<lambda>namespace selector. Inr items\<rparr>)
        customMetricName namespace selector)"
proof -
  have names: "set (podNames (scan_pods items)) = pod_name ` set (running items)"
    by (simp add: scan_pods_podNames set_insert_all)
  have dist: "distinct (podNames (scan_pods items))"
    by (simp add: scan_pods_podNames distinct_insert_all)
  have wf: "distinct (map pod_name (running items)) \<longrightarrow>
      podNames (scan_pods items) = map pod_name (running items)"
    using insert_all_distinct [of "[]" "map pod_name (running items)"]
    by (simp add: scan_pods_podNames)
  have rr: "running (running items) = running items"
    by (simp add: running_def)
  have pp: "not_pending (not_pending items) = not_pending items"
    by (simp add: not_pending_def)
  have custom: "custom_podNames (not_pending items) = custom_podNames items"
    by (simp add: custom_podNames_eq pp)
  have listed: "client (h\<lparr>client := \<lambda>namespace selector. Inr pods\<rparr>) namespace selector = Inr pods"
    for pods
    by simp
  have api: "queryAPI (h\<lparr>client := c\<rparr>) = queryAPI h" for c
    by simp
  have cpu_entry: "running items \<noteq> [] \<longrightarrow>
      GetCPUUtilization (h\<lparr>client := \<lambda>namespace selector. Inr (running items)\<rparr>)
        range_order namespace selector =
      GetCPUUtilization (h\<lparr>client := \<lambda>namespace selector. Inr items\<rparr>)
        range_order namespace selector"
  proof
    assume some: "running items \<noteq> []"
    then have "podNames (scan_pods items) \<noteq> []"
      by (simp add: scan_pods_no_names)
    then show "GetCPUUtilization (h\<lparr>client := \<lambda>namespace selector. Inr (running items)\<rparr>)
        range_order namespace selector =
      GetCPUUtilization (h\<lparr>client := \<lambda>namespace selector. Inr items\<rparr>)
        range_order namespace selector"
      unfolding GetCPUUtilization_listed [OF listed] scan_pods_running api
      by (simp add: Let_def)
  qed
  have custom_entry: "not_pending items \<noteq> [] \<longrightarrow>
      GetCustomMetric (h\<lparr>client := \<lambda>namespace selector. Inr (not_pending items)\<rparr>)
        customMetricName namespace selector =
      GetCustomMetric (h\<lparr>client := \<lambda>namespace selector. Inr items\<rparr>)
        customMetricName namespace selector"
    unfolding GetCustomMetric_listed [OF listed] pp api
    by (simp add: Let_def)
  from names dist wf custom cpu_entry custom_entry show ?thesis
    by (simp add: scan_pods_requestSum scan_pods_missing scan_pods_running rr custom_podNames_eq)
qed

theorem C9_phase_filters_witness:
  "podNames (scan_pods [a_pod ''a'' PodRunning [Some 100], a_pod ''b'' PodPending [Some 300],
      a_pod ''c'' PodSucceeded [None]]) = [''a''] \<and>
   GetCPUUtilization
     (fixed_client (Inr [a_pod ''a'' PodRunning [Some 100]]) (Inr (ValVector [])))
     id ''ns1'' () =
   GetCPUUtilization
     (fixed_client (Inr [a_pod ''a'' PodRunning [Some 100], a_pod ''b'' PodPending [Some 300],
        a_pod ''c'' PodSucceeded [None]]) (Inr (ValVector [])))
     id ''ns1'' () \<and>
   GetCustomMetric
     (fixed_client (Inr [a_pod ''a'' PodRunning [Some 100], a_pod ''c'' PodSucceeded [None]])
        (Inr (ValVector [])))
     ''qos'' ''ns1'' () =
   GetCustomMetric
     (fixed_client (Inr [a_pod ''a'' PodRunning [Some 100], a_pod ''b'' PodPending [Some 300],
        a_pod ''c'' PodSucceeded [None]]) (Inr (ValVector [])))
     ''qos'' ''ns1'' ()"
proof -
  let ?items = "[a_pod ''a'' PodRunning [Some 100], a_pod ''b'' PodPending [Some 300],
      a_pod ''c'' PodSucceeded [None]]"
  let ?h = "fixed_client (Inr []) (Inr (ValVector []))"
  have run: "running ?items = [a_pod ''a'' PodRunning [Some 100]]"
    by (simp add: running_def a_pod_def)
  have np: "not_pending ?items = [a_pod ''a'' PodRunning [Some 100], a_pod ''c'' PodSucceeded [None]]"
    by (simp add: not_pending_def a_pod_def)
  have upd: "?h\<lparr>client := \<lambda>namespace selector. Inr pods\<rparr> =
      fixed_client (Inr pods) (Inr (ValVector []))" for pods
    by (simp add: fixed_client_def)
  have dist: "distinct (map pod_name (running ?items))"
    unfolding run by simp
  from C9_phase_filters [of ?items ?h id "''ns1''" "()" "''qos''"] dist
  show ?thesis
    unfolding upd run np by (simp add: a_pod_def)
qed

text \<open>
  Claim C10. Whenever \<open>GetCPUUtilization\<close> or \<open>GetCustomMetric\<close> returns a non-nil error
  (after a failed listing, with no eligible pod, with a missing request, after a failed
  query or with an empty vector), the value it returns is absent and the timestamp is the
  zero timestamp.
\<close>

theorem C10_failure_zero_time:
  "(snd (GetCPUUtilization h range_order namespace selector) = Return (v, t, Some e) \<longrightarrow>
      v = None \<and> t = ZeroTime) \<and>
   (snd (GetCustomMetric h customMetricName namespace selector) = Return (v', t', Some e') \<longrightarrow>
      v' = None \<and> t' = ZeroTime)"
proof (cases "client h namespace selector")
  case (Inl err)
  then show ?thesis
    by (simp add: GetCPUUtilization_not_listed GetCustomMetric_not_listed)
next
  case (Inr items)
  have "snd (GetCPUUtilization h range_order namespace selector) = Return (v, t, Some e) \<longrightarrow>
      v = None \<and> t = ZeroTime"
    by (simp add: GetCPUUtilization_listed [OF Inr] Let_def
          split: option.split sum.split model_value.split list.split)
  moreover
  have "snd (GetCustomMetric h customMetricName namespace selector) = Return (v', t', Some e') \<longrightarrow>
      v' = None \<and> t' = ZeroTime"
    by (simp add: GetCustomMetric_listed [OF Inr] Let_def
          split: sum.split model_value.split list.split)
  ultimately show ?thesis
    by simp
qed

theorem C10_failure_zero_time_witness:
  "snd (GetCPUUtilization (fixed_client (Inl ''unreachable'') (Inl ''unreachable''))
          id ''ns1'' ()) =
     Return (None, ZeroTime,
       Some (FailedToGetCpuConsumptionAndRequest (FailedToGetPodList ''unreachable''))) \<and>
   snd (GetCustomMetric (fixed_client (Inr [a_pod ''a'' PodRunning [Some 100]])
          (Inl ''unreachable'')) ''qos'' ''ns1'' ()) =
     Return (None, ZeroTime, Some (FailedToGetMetrics ''qos'' ''(a|).*'' ''unreachable''))"
proof -
  let ?h = "fixed_client (Inl ''unreachable'') (Inl ''unreachable'')"
  let ?k = "fixed_client (Inr [a_pod ''a'' PodRunning [Some 100]]) (Inl ''unreachable'')"
  obtain v t e where cpu: "snd (GetCPUUtilization ?h id ''ns1'' ()) = Return (v, t, Some e)"
    and e: "e = FailedToGetCpuConsumptionAndRequest (FailedToGetPodList ''unreachable'')"
    by (simp add: GetCPUUtilization_not_listed fixed_client_def)
  obtain v' t' e' where custom: "snd (GetCustomMetric ?k ''qos'' ''ns1'' ()) = Return (v', t', Some e')"
    and e': "e' = FailedToGetMetrics ''qos'' ''(a|).*'' ''unreachable''"
    by (simp add: GetCustomMetric_listed fixed_client_def a_pod_def not_pending_def
          podListReg_of_def Let_def)
  from C10_failure_zero_time [of ?h id "''ns1''" "()" v t e] cpu
  have "v = None \<and> t = ZeroTime"
    by simp
  moreover from C10_failure_zero_time [of ?k id "''ns1''" "()" _ _ _ "''qos''" v' t' e'] custom
  have "v' = None \<and> t' = ZeroTime"
    by simp
  ultimately show ?thesis
    using cpu custom e e' by simp
qed

end
